theory Spec2Isabelle
  imports Complex_Main
begin

section \<open>The native embedder (server/utils/EmbeddingEngines/native/index.js)\<close>

text \<open>
  A shallow embedding of the class \<open>NativeEmbedder\<close>. Everything the class reads from
  outside itself is a field of the record \<open>env\<close>: the registry of supported models
  (\<open>./constants\<close>), the helper \<open>toChunks\<close> (\<open>../../helpers\<close>), the library call
  \<open>pipeline(...)\<close> of \<open>@xenova/transformers\<close>, the outcome of \<open>fs.promises.appendFile\<close>
  and the path produced from \<open>uuid.v4()\<close>. Everything the class mutates is a field of the
  record \<open>state\<close>, threaded through every operation: the session flag
  \<open>modelDownloaded\<close>, the library's \<open>env.remoteHost\<close> and \<open>env.remotePathTemplate\<close>,
  the scratch files, and a trace of log lines and library calls.
  An exception is the left injection of a sum.

  The fields \<open>model\<close> and \<open>maxConcurrentChunks\<close> of the state are the ones the
  constructor sets. Taken to succeed, since the class has no handling of its own for
  them: the dynamic import of the library, the inference call on a loaded pipeline,
  \<open>fs.rmSync\<close>, and the directory creation of \<open>#tempfilePath\<close>. Of \<open>fs.readFileSync\<close> the
  one failure modelled is the missing file.
\<close>

subsection \<open>Values\<close>

text \<open>
  JavaScript values that travel through the scratch file: numbers and arrays. The numbers
  of a tensor are taken as finite, so that \<open>JSON.parse (JSON.stringify v) = v\<close>.
\<close>

datatype json = JNum real | JArr "json list"

text \<open>
  The output of feature extraction, as far as the class looks at it: the value of its
  property \<open>length\<close> (\<open>None\<close> when the object has no such property, JavaScript's
  \<open>undefined\<close>) and the rows that \<open>tolist()\<close> returns, one row of numbers per text. The
  class calls \<open>tolist()\<close> on the output, so the output is the library's \<open>Tensor\<close>: an object
  with \<open>dims\<close>, \<open>type\<close>, \<open>data\<close> and \<open>size\<close> and without a property \<open>length\<close>, whatever the
  number of its rows. \<open>libraryTensor\<close> is such an output.
\<close>

record tensor =
  tensor_length :: "nat option"
  tensor_rows :: "real list list"

definition libraryTensor :: "real list list \<Rightarrow> tensor" where
  "libraryTensor r = \<lparr>tensor_length = None, tensor_rows = r\<rparr>"

text \<open>The vectors of an output, one JavaScript array per row.\<close>

definition batchVectors :: "tensor \<Rightarrow> json list" where
  "batchVectors output = map (\<lambda>row. JArr (map JNum row)) (tensor_rows output)"

definition tolist :: "tensor \<Rightarrow> json" where
  "tolist output = JArr (batchVectors output)"

text \<open>\<open>Array.prototype.flat()\<close> with its default depth 1.\<close>

fun flat_item :: "json \<Rightarrow> json list" where
  "flat_item (JArr ys) = ys"
| "flat_item (JNum n) = [JNum n]"

definition flat :: "json list \<Rightarrow> json list" where
  "flat xs = concat (map flat_item xs)"

text \<open>Truthiness, as \<open>||\<close> tests it: every array is truthy, a number unless it is 0.\<close>

fun truthy :: "json \<Rightarrow> bool" where
  "truthy (JArr ys) = True"
| "truthy (JNum n) = (n \<noteq> 0)"

text \<open>The argument of \<open>embedTextInput\<close> and \<open>#applyQueryPrefix\<close>: \<open>string|string[]\<close>.\<close>

datatype text_input = Str string | StrList "string list"

datatype js_error =
    LibraryError string
  | ENOENT string
  | SyntaxError
  | ThrownNull

subsection \<open>The scratch file and \<open>JSON.parse\<close>\<close>

text \<open>
  Every \<open>appendFile\<close> of the class appends one of four texts: \<open>"["\<close>, \<open>","\<close>, \<open>"]"\<close> or
  \<open>JSON.stringify(output.tolist())\<close>. A file's content is the list of the pieces appended
  so far. A stringified value is a complete JSON text, so \<open>JSON.parse\<close> of the
  concatenation is decided piece by piece: \<open>parse_run\<close> is a parser for the JSON grammar
  over pieces, with a stack of the arrays still open (each with its elements so far,
  newest first).
\<close>

datatype piece = LBracket | Comma | RBracket | Stringified json

datatype pmode = WantValue | WantValueOrClose | WantSepOrClose | Finished json

fun deliver :: "json \<Rightarrow> json list list \<Rightarrow> pmode \<times> json list list" where
  "deliver v [] = (Finished v, [])"
| "deliver v (acc # st) = (WantSepOrClose, (v # acc) # st)"

fun parse_step :: "pmode \<Rightarrow> json list list \<Rightarrow> piece \<Rightarrow> (pmode \<times> json list list) option" where
  "parse_step WantValue st (Stringified j) = Some (deliver j st)"
| "parse_step WantValue st LBracket = Some (WantValueOrClose, [] # st)"
| "parse_step WantValueOrClose st (Stringified j) = Some (deliver j st)"
| "parse_step WantValueOrClose st LBracket = Some (WantValueOrClose, [] # st)"
| "parse_step WantValueOrClose (acc # st) RBracket = Some (deliver (JArr (rev acc)) st)"
| "parse_step WantSepOrClose st Comma = Some (WantValue, st)"
| "parse_step WantSepOrClose (acc # st) RBracket = Some (deliver (JArr (rev acc)) st)"
| "parse_step m st p = None"

fun parse_run :: "pmode \<Rightarrow> json list list \<Rightarrow> piece list \<Rightarrow> json option" where
  "parse_run m st [] = (case m of Finished v \<Rightarrow> Some v | _ \<Rightarrow> None)"
| "parse_run m st (p # ps) =
     (case parse_step m st p of
        None \<Rightarrow> None
      | Some (m', st') \<Rightarrow> parse_run m' st' ps)"

text \<open>\<open>None\<close> stands for the \<open>SyntaxError\<close> that \<open>JSON.parse\<close> throws.\<close>

definition JSON_parse :: "piece list \<Rightarrow> json option" where
  "JSON_parse ps = parse_run WantValue [] ps"

subsection \<open>The registry and the session\<close>

record api_info =
  api_id :: string
  api_name :: string
  api_description :: string
  api_lang :: string
  api_size :: string
  api_modelCard :: string

record model_info =
  chunkPrefix :: string
  queryPrefix :: string
  info_maxConcurrentChunks :: nat
  info_embeddingMaxChunkLength :: nat
  apiInfo :: api_info

text \<open>
  One line of the trace: the log lines of the class (by kind, with the values they
  interpolate), the \<open>console.error\<close> of \<open>#writeToTempfile\<close>, and each call of the
  library's \<open>pipeline("feature-extraction", ...)\<close> with the host override of the
  enclosing \<open>#fetchWithHost\<close>, the library's \<open>env.remoteHost\<close> at that moment and whether a
  \<open>progress_callback\<close> was passed.
\<close>

datatype event =
    LogNeverRun
  | LogDownloading string string
  | LogFailedPrimary "string option"
  | LogEmbedded nat nat
  | ErrWriting
  | PipelineCall "string option" string bool

record state =
  model :: string
  maxConcurrentChunks :: nat
  modelDownloaded :: bool
  remoteHost :: string
  remotePathTemplate :: string
  files :: "string \<Rightarrow> piece list option"
  trace :: "event list"

record env =
  supportedModels :: "string \<Rightarrow> model_info option"
  toChunks :: "string list \<Rightarrow> nat \<Rightarrow> string list list"
  loadPipeline :: "state \<Rightarrow> js_error + (string list \<Rightarrow> tensor)"
  appendFile_fails :: "state \<Rightarrow> bool"
  tempfilePath :: "state \<Rightarrow> string"

definition defaultModel :: string where
  "defaultModel = ''Xenova/all-MiniLM-L6-v2''"

definition fallbackHost :: string where
  "fallbackHost = ''https://cdn.anythingllm.com/support/models/''"

text \<open>
  The bracket access \<open>supportedModels[k]\<close>. The field \<open>supportedModels\<close> of \<open>env\<close> holds the
  registry's own entries. The registry is a plain object, so the access also finds the
  members every object inherits from \<open>Object.prototype\<close>: functions, and under
  \<open>__proto__\<close> the prototype itself. \<open>None\<close> is JavaScript's \<open>undefined\<close>.
\<close>

datatype member = Descriptor model_info | Inherited string

definition objectPrototype :: "string list" where
  "objectPrototype =
     [''constructor'', ''__proto__'', ''hasOwnProperty'', ''isPrototypeOf'',
      ''propertyIsEnumerable'', ''toLocaleString'', ''toString'', ''valueOf'',
      ''__defineGetter__'', ''__defineSetter__'', ''__lookupGetter__'',
      ''__lookupSetter__'']"

definition lookupModel :: "env \<Rightarrow> string \<Rightarrow> member option" where
  "lookupModel e k =
     (case supportedModels e k of
        Some d \<Rightarrow> Some (Descriptor d)
      | None \<Rightarrow> (if k \<in> set objectPrototype then Some (Inherited k) else None))"

text \<open>
  \<open>getEmbeddingModel\<close>: the argument is \<open>process.env.EMBEDDING_MODEL_PREF\<close>, \<open>None\<close> when
  it is unset. \<open>??\<close> replaces only an unset value. A registry entry is an object and an
  inherited member a function or an object, all truthy, so the test
  \<open>supportedModels?.[envModel]\<close> asks whether the access finds anything.
\<close>

definition getEmbeddingModel :: "env \<Rightarrow> string option \<Rightarrow> string" where
  "getEmbeddingModel e pref =
     (let envModel = (case pref of None \<Rightarrow> defaultModel | Some m \<Rightarrow> m)
      in if lookupModel e envModel \<noteq> None then envModel else defaultModel)"

text \<open>\<open>getEmbedderInfo\<close> returns whatever the access finds under the resolved identifier.\<close>

definition getEmbedderInfo :: "env \<Rightarrow> string option \<Rightarrow> member option" where
  "getEmbedderInfo e pref = lookupModel e (getEmbeddingModel e pref)"

text \<open>
  The getter \<open>queryPrefix\<close>: \<open>supportedModels[this.model]?.queryPrefix || ""\<close>. An inherited
  member has no property \<open>queryPrefix\<close>.
\<close>

definition get_queryPrefix :: "env \<Rightarrow> state \<Rightarrow> string" where
  "get_queryPrefix e s =
     (case lookupModel e (model s) of
        None \<Rightarrow> ''''
      | Some (Inherited k) \<Rightarrow> ''''
      | Some (Descriptor d) \<Rightarrow> queryPrefix d)"

definition applyQueryPrefix :: "env \<Rightarrow> state \<Rightarrow> text_input \<Rightarrow> text_input" where
  "applyQueryPrefix e s textInput =
     (if get_queryPrefix e s = '''' then textInput
      else (case textInput of
              StrList ts \<Rightarrow> StrList (map (\<lambda>text. get_queryPrefix e s @ text) ts)
            | Str t \<Rightarrow> Str (get_queryPrefix e s @ t)))"

subsection \<open>Acquisition\<close>

definition log_event :: "event \<Rightarrow> state \<Rightarrow> state" where
  "log_event ev s = s\<lparr>trace := trace s @ [ev]\<rparr>"

record fetch_response =
  pipeline :: "(string list \<Rightarrow> tensor) option"
  retry :: "string option"
  error :: "js_error option"

text \<open>A host, or \<open>false\<close>/\<open>null\<close> (\<open>None\<close>), tested for truthiness.\<close>

fun truthy_host :: "string option \<Rightarrow> bool" where
  "truthy_host None = False"
| "truthy_host (Some h) = (h \<noteq> [])"

text \<open>
  \<open>#fetchWithHost\<close>. The dynamic import of the library is taken to succeed; what can
  throw is the library's \<open>pipeline(...)\<close>, whose outcome is \<open>loadPipeline\<close> of the state
  at the call.
\<close>

definition fetchWithHost :: "env \<Rightarrow> string option \<Rightarrow> state \<Rightarrow> fetch_response \<times> state" where
  "fetchWithHost e hostOverride s =
     (let s1 = (if \<not> modelDownloaded s
                then (let s0 = (case hostOverride of
                                  None \<Rightarrow> s
                                | Some h \<Rightarrow>
                                    (if h \<noteq> [] then s\<lparr>remoteHost := h,
                                                        remotePathTemplate := ''{model}/''\<rparr>
                                     else s))
                      in log_event (LogDownloading (model s0) (remoteHost s0)) s0)
                else s);
          s2 = log_event (PipelineCall hostOverride (remoteHost s1) (\<not> modelDownloaded s1)) s1
      in (case loadPipeline e s2 of
            Inr p \<Rightarrow> (\<lparr>pipeline = Some p, retry = None, error = None\<rparr>, s2)
          | Inl err \<Rightarrow>
              (\<lparr>pipeline = None,
                retry = (if hostOverride = None then Some fallbackHost else None),
                error = Some err\<rparr>, s2)))"

text \<open>\<open>throw fetchResponse.error\<close>.\<close>

fun throw_error :: "js_error option \<Rightarrow> js_error" where
  "throw_error (Some err) = err"
| "throw_error None = ThrownNull"

definition embedderClient :: "env \<Rightarrow> state \<Rightarrow> (js_error + (string list \<Rightarrow> tensor)) \<times> state" where
  "embedderClient e s =
     (let s0 = (if \<not> modelDownloaded s then log_event LogNeverRun s else s);
          (r1, s1) = fetchWithHost e None s0
      in (case pipeline r1 of
            Some p \<Rightarrow> (Inr p, s1\<lparr>modelDownloaded := True\<rparr>)
          | None \<Rightarrow>
              (let s2 = log_event (LogFailedPrimary (retry r1)) s1;
                   (r2, s3) = (if truthy_host (retry r1)
                               then fetchWithHost e (retry r1) s2
                               else (r1, s2))
               in (case pipeline r2 of
                     Some p \<Rightarrow> (Inr p, s3\<lparr>modelDownloaded := True\<rparr>)
                   | None \<Rightarrow> (Inl (throw_error (error r2)), s3)))))"

subsection \<open>The chunked pipeline\<close>

text \<open>\<open>#writeToTempfile\<close>: a failed append is logged and swallowed.\<close>

definition writeToTempfile :: "env \<Rightarrow> string \<Rightarrow> piece \<Rightarrow> state \<Rightarrow> state" where
  "writeToTempfile e filePath data s =
     (if appendFile_fails e s then log_event ErrWriting s
      else s\<lparr>files := (files s)(filePath \<mapsto>
                (case files s filePath of None \<Rightarrow> [] | Some c \<Rightarrow> c) @ [data])\<rparr>)"

text \<open>
  The \<open>for\<close> loop of \<open>embedChunks\<close> over \<open>chunks.entries()\<close>, from index \<open>idx\<close> on;
  \<open>chunkLen\<close> is the number of all chunks.
\<close>

fun embedLoop ::
  "env \<Rightarrow> string \<Rightarrow> nat \<Rightarrow> nat \<Rightarrow> string list list \<Rightarrow> state \<Rightarrow> (js_error + unit) \<times> state" where
  "embedLoop e tmpFilePath chunkLen idx [] s = (Inr (), s)"
| "embedLoop e tmpFilePath chunkLen idx (chunk # rest) s =
     (let s1 = (if idx = 0 then writeToTempfile e tmpFilePath LBracket s else s)
      in (case embedderClient e s1 of
            (Inl err, s2) \<Rightarrow> (Inl err, s2)
          | (Inr pipe, s2) \<Rightarrow>
              (let output = pipe chunk
               in if tensor_length output = Some 0
                  then embedLoop e tmpFilePath chunkLen (idx + 1) rest s2
                  else
                    (let s3 = writeToTempfile e tmpFilePath (Stringified (tolist output)) s2;
                         s4 = log_event (LogEmbedded (idx + 1) chunkLen) s3;
                         s5 = (if int chunkLen - 1 \<noteq> int idx
                               then writeToTempfile e tmpFilePath Comma s4 else s4);
                         s6 = (if int chunkLen - 1 = int idx
                               then writeToTempfile e tmpFilePath RBracket s5 else s5)
                     in embedLoop e tmpFilePath chunkLen (idx + 1) rest s6))))"

text \<open>
  After the loop: \<open>readFileSync\<close> throws when the file does not exist, \<open>JSON.parse\<close>
  throws on malformed text, then \<open>rmSync\<close> removes the file. \<open>embeddingResults.length\<close> of
  a number is \<open>undefined\<close>, and \<open>undefined > 0\<close> is false.
\<close>

definition readBack :: "string \<Rightarrow> state \<Rightarrow> (js_error + json list option) \<times> state" where
  "readBack tmpFilePath s =
     (case files s tmpFilePath of
        None \<Rightarrow> (Inl (ENOENT tmpFilePath), s)
      | Some content \<Rightarrow>
          (case JSON_parse content of
             None \<Rightarrow> (Inl SyntaxError, s)
           | Some embeddingResults \<Rightarrow>
               (let s' = s\<lparr>files := (files s)(tmpFilePath := None)\<rparr>
                in (case embeddingResults of
                      JArr xs \<Rightarrow> (Inr (if length xs > 0 then Some (flat xs) else None), s')
                    | JNum n \<Rightarrow> (Inr None, s')))))"

definition embedChunks :: "env \<Rightarrow> string list \<Rightarrow> state \<Rightarrow> (js_error + json list option) \<times> state" where
  "embedChunks e textChunks s =
     (let tmpFilePath = tempfilePath e s;
          chunks = toChunks e textChunks (maxConcurrentChunks s);
          chunkLen = length chunks
      in (case embedLoop e tmpFilePath chunkLen 0 chunks s of
            (Inl err, s') \<Rightarrow> (Inl err, s')
          | (Inr u, s') \<Rightarrow> readBack tmpFilePath s'))"

text \<open>\<open>embedTextInput\<close>: \<open>result?.[0] || []\<close>.\<close>

fun first_or_empty :: "json list option \<Rightarrow> json" where
  "first_or_empty None = JArr []"
| "first_or_empty (Some []) = JArr []"
| "first_or_empty (Some (v # vs)) = (if truthy v then v else JArr [])"

definition embedTextInput :: "env \<Rightarrow> text_input \<Rightarrow> state \<Rightarrow> (js_error + json) \<times> state" where
  "embedTextInput e textInput s =
     (let textInput' = applyQueryPrefix e s textInput
      in (case embedChunks e (case textInput' of StrList ts \<Rightarrow> ts | Str t \<Rightarrow> [t]) s of
            (Inl err, s') \<Rightarrow> (Inl err, s')
          | (Inr result, s') \<Rightarrow> (Inr (first_or_empty result), s')))"

subsection \<open>Notions the statements use\<close>

text \<open>
  The state in which \<open>#fetchWithHost\<close> calls the library's \<open>pipeline(...)\<close>: what the
  \<open>then\<close> callback has done to the library's \<open>env\<close> and to the log by that moment.
\<close>

definition atCall :: "string option \<Rightarrow> state \<Rightarrow> state" where
  "atCall hostOverride s =
     (let s1 = (if \<not> modelDownloaded s
                then (let s0 = (case hostOverride of
                                  None \<Rightarrow> s
                                | Some h \<Rightarrow>
                                    (if h \<noteq> [] then s\<lparr>remoteHost := h,
                                                        remotePathTemplate := ''{model}/''\<rparr>
                                     else s))
                      in log_event (LogDownloading (model s0) (remoteHost s0)) s0)
                else s)
      in log_event (PipelineCall hostOverride (remoteHost s1) (\<not> modelDownloaded s1)) s1)"

text \<open>
  The states of the two library calls \<open>embedderClient\<close> can make from \<open>s\<close>: the first
  with no override, the second with the fallback host after the first has failed.
\<close>

definition firstCall :: "state \<Rightarrow> state" where
  "firstCall s = atCall None (if \<not> modelDownloaded s then log_event LogNeverRun s else s)"

definition secondCall :: "state \<Rightarrow> state" where
  "secondCall s =
     atCall (Some fallbackHost) (log_event (LogFailedPrimary (Some fallbackHost)) (firstCall s))"

fun isPipelineCall :: "event \<Rightarrow> bool" where
  "isPipelineCall (PipelineCall h r p) = True"
| "isPipelineCall ev = False"

definition pipelineCalls :: "state \<Rightarrow> event list" where
  "pipelineCalls s = filter isPipelineCall (trace s)"

text \<open>
  The trace lines of a download in progress: the two log lines written only while
  \<open>modelDownloaded\<close> is false, and a library call that was given a \<open>progress_callback\<close>.
\<close>

fun logsProgress :: "event \<Rightarrow> bool" where
  "logsProgress LogNeverRun = True"
| "logsProgress (LogDownloading m h) = True"
| "logsProgress (PipelineCall h r p) = p"
| "logsProgress ev = False"

definition progressEvents :: "state \<Rightarrow> event list" where
  "progressEvents s = filter logsProgress (trace s)"

text \<open>The loop of \<open>embedChunks\<close> as \<open>embedChunks\<close> runs it, before the read-back.\<close>

definition runBatches :: "env \<Rightarrow> string list \<Rightarrow> state \<Rightarrow> (js_error + unit) \<times> state" where
  "runBatches e textChunks s =
     embedLoop e (tempfilePath e s)
       (length (toChunks e textChunks (maxConcurrentChunks s))) 0
       (toChunks e textChunks (maxConcurrentChunks s)) s"


definition content :: "state \<Rightarrow> string \<Rightarrow> piece list" where
  "content s filePath = (case files s filePath of None \<Rightarrow> [] | Some c \<Rightarrow> c)"

text \<open>\<open>fs.existsSync\<close> of a scratch path.\<close>

definition onDisk :: "state \<Rightarrow> string \<Rightarrow> bool" where
  "onDisk s filePath = (files s filePath \<noteq> None)"

text \<open>
  The two groups of appends of one iteration of the loop: the opening bracket before the
  first batch, and the output of a batch with the separator or the closing bracket.
\<close>

definition openBracket :: "env \<Rightarrow> string \<Rightarrow> nat \<Rightarrow> state \<Rightarrow> state" where
  "openBracket e tmpFilePath idx s =
     (if idx = 0 then writeToTempfile e tmpFilePath LBracket s else s)"

definition writeBatch :: "env \<Rightarrow> string \<Rightarrow> nat \<Rightarrow> nat \<Rightarrow> tensor \<Rightarrow> state \<Rightarrow> state" where
  "writeBatch e tmpFilePath chunkLen idx output s2 =
     (let s3 = writeToTempfile e tmpFilePath (Stringified (tolist output)) s2;
          s4 = log_event (LogEmbedded (idx + 1) chunkLen) s3;
          s5 = (if int chunkLen - 1 \<noteq> int idx
                then writeToTempfile e tmpFilePath Comma s4 else s4);
          s6 = (if int chunkLen - 1 = int idx
                then writeToTempfile e tmpFilePath RBracket s5 else s5)
      in s6)"

subsection \<open>The helper \<open>toChunks\<close> and example environments\<close>

text \<open>
  Modelled from the spec: the helper \<open>toChunks\<close> of \<open>../../helpers\<close> is not part of the
  sources at hand. The spec has it partition the list of texts into ordered batches of
  size at most \<open>maxConcurrentChunks\<close>, preserving the order across and within batches
  (60 texts at 25 give batches of 25, 25 and 10; no text gives no batch). A size of 0,
  which the spec excludes, gives no batch here.
\<close>

function toChunks_spec :: "'a list \<Rightarrow> nat \<Rightarrow> 'a list list" where
  "toChunks_spec arr sz =
     (if arr = [] \<or> sz = 0 then []
      else take sz arr # toChunks_spec (drop sz arr) sz)"
  by pat_completeness auto
termination
  by (relation "measure (\<lambda>(arr, sz). length arr)") auto

declare toChunks_spec.simps [simp del]

text \<open>Two entries of a registry, for the examples.\<close>

definition miniLM :: model_info where
  "miniLM = \<lparr>chunkPrefix = '''', queryPrefix = '''',
     info_maxConcurrentChunks = 25, info_embeddingMaxChunkLength = 1000,
     apiInfo = \<lparr>api_id = ''Xenova/all-MiniLM-L6-v2'', api_name = ''all-MiniLM-L6-v2'',
       api_description = '''', api_lang = ''English'', api_size = ''23MB'',
       api_modelCard = ''''\<rparr>\<rparr>"

definition nomic :: model_info where
  "nomic = \<lparr>chunkPrefix = ''search_document: '', queryPrefix = ''search_query: '',
     info_maxConcurrentChunks = 5, info_embeddingMaxChunkLength = 16000,
     apiInfo = \<lparr>api_id = ''Xenova/nomic-embed-text-v1'', api_name = ''nomic-embed-text-v1'',
       api_description = '''', api_lang = ''English'', api_size = ''139MB'',
       api_modelCard = ''''\<rparr>\<rparr>"

definition exampleModels :: "string \<Rightarrow> model_info option" where
  "exampleModels k =
     (if k = ''Xenova/all-MiniLM-L6-v2'' then Some miniLM
      else if k = ''Xenova/nomic-embed-text-v1'' then Some nomic
      else None)"

text \<open>A toy inference capability: the one number of a text's vector is its length.\<close>

definition toyVector :: "string \<Rightarrow> real list" where
  "toyVector t = [real (length t)]"

definition toyPipeline :: "string list \<Rightarrow> tensor" where
  "toyPipeline batch = libraryTensor (map toyVector batch)"

text \<open>
  \<open>envOk\<close>: every load succeeds. \<open>envDown\<close>: every load fails. \<open>envFallback\<close>: a load
  succeeds only from the fallback host. No append fails in any of them. \<open>envNoClose\<close>:
  as \<open>envOk\<close>, but the appends after the log line of a single batch fail, that is the
  append of the closing bracket.
\<close>

definition envOk :: env where
  "envOk = \<lparr>supportedModels = exampleModels, toChunks = toChunks_spec,
     loadPipeline = (\<lambda>s. Inr toyPipeline),
     appendFile_fails = (\<lambda>s. False),
     tempfilePath = (\<lambda>s. ''/storage/tmp/0001.tmp'')\<rparr>"

definition envDown :: env where
  "envDown = envOk\<lparr>loadPipeline := (\<lambda>s. Inl (LibraryError ''fetch failed''))\<rparr>"

definition envFallback :: env where
  "envFallback = envOk\<lparr>loadPipeline :=
     (\<lambda>s. if remoteHost s = fallbackHost then Inr toyPipeline
          else Inl (LibraryError ''fetch failed''))\<rparr>"

definition envNoClose :: env where
  "envNoClose = envOk\<lparr>appendFile_fails := (\<lambda>s. LogEmbedded 1 1 \<in> set (trace s))\<rparr>"



definition envFlaky :: env where
  "envFlaky = envOk\<lparr>loadPipeline :=
     (\<lambda>s. if LogEmbedded 1 2 \<in> set (trace s) then Inl (LibraryError ''fetch failed'')
          else Inr toyPipeline)\<rparr>"

text \<open>A session just constructed, the model not on disk; and one that found it there.\<close>

definition freshSession :: state where
  "freshSession = \<lparr>model = ''Xenova/all-MiniLM-L6-v2'', maxConcurrentChunks = 2,
     modelDownloaded = False, remoteHost = ''https://huggingface.co/'',
     remotePathTemplate = ''{model}/resolve/{revision}/'',
     files = (\<lambda>p. None), trace = []\<rparr>"

definition warmSession :: state where
  "warmSession = freshSession\<lparr>modelDownloaded := True\<rparr>"

definition nomicSession :: state where
  "nomicSession = freshSession\<lparr>model := ''Xenova/nomic-embed-text-v1''\<rparr>"

section \<open>Model resolution\<close>

text \<open>
  What holds of the resolution: an identifier with an entry of its own resolves to itself
  and its entry; an identifier without one that is no member of \<open>Object.prototype\<close>
  either, and an unset one, resolve to the default model and its entry.
\<close>

lemma resolveModel_own_or_default:
  assumes "supportedModels e defaultModel = Some d0"
  shows "(supportedModels e m = Some d \<longrightarrow>
            getEmbeddingModel e (Some m) = m \<and> getEmbedderInfo e (Some m) = Some (Descriptor d))
       \<and> (supportedModels e m = None \<and> m \<notin> set objectPrototype \<longrightarrow>
            getEmbeddingModel e (Some m) = defaultModel
            \<and> getEmbedderInfo e (Some m) = Some (Descriptor d0))
       \<and> getEmbeddingModel e None = defaultModel
       \<and> getEmbedderInfo e None = Some (Descriptor d0)"
  using assms by (simp add: getEmbeddingModel_def getEmbedderInfo_def lookupModel_def)

text \<open>
  C6 (the code departs from the claim). An unsupported identifier that names a member of
  \<open>Object.prototype\<close>, such as \<open>toString\<close> or \<open>constructor\<close>, passes the test
  \<open>supportedModels?.[envModel]\<close>: \<open>getEmbeddingModel\<close> returns that identifier, not the
  default one, and \<open>getEmbedderInfo\<close> returns the inherited member, not the default
  model's descriptor.
\<close>

theorem inherited_member_is_resolved:
  assumes "m \<in> set objectPrototype"
      and "supportedModels e m = None"
  shows "getEmbeddingModel e (Some m) = m
         \<and> getEmbedderInfo e (Some m) = Some (Inherited m)"
  using assms by (simp add: getEmbeddingModel_def getEmbedderInfo_def lookupModel_def)

text \<open>\<open>EMBEDDING_MODEL_PREF=toString\<close> against a registry of two models.\<close>

theorem inherited_member_is_resolved_witness:
  "getEmbeddingModel envOk (Some ''toString'') = ''toString''
   \<and> getEmbedderInfo envOk (Some ''toString'') = Some (Inherited ''toString'')
   \<and> ''toString'' \<noteq> defaultModel"
proof -
  have 1: "''toString'' \<in> set objectPrototype"
    by (simp add: objectPrototype_def)
  have 2: "supportedModels envOk ''toString'' = None"
    by (simp add: envOk_def exampleModels_def)
  from inherited_member_is_resolved [OF 1 2] show ?thesis
    by (simp add: defaultModel_def)
qed

section \<open>Prefix application\<close>

lemma map_append_Nil: "map ((@) []) ts = ts"
  by (induction ts) simp_all

text \<open>
  C7. \<open>#applyQueryPrefix\<close> returns its input when the model's query prefix is the empty
  string. In every case a string comes back as the prefix followed directly by the
  string, and a list comes back as the list of its elements, each with the prefix
  directly before it: the shape is kept and nothing stands between prefix and text.
\<close>

theorem applyQueryPrefix_prepends:
  "(get_queryPrefix e s = '''' \<longrightarrow> applyQueryPrefix e s x = x)
   \<and> applyQueryPrefix e s (Str t) = Str (get_queryPrefix e s @ t)
   \<and> applyQueryPrefix e s (StrList ts) = StrList (map (\<lambda>text. get_queryPrefix e s @ text) ts)"
  by (simp add: applyQueryPrefix_def map_append_Nil)

theorem applyQueryPrefix_prepends_witness:
  "get_queryPrefix envOk freshSession = ''''
   \<and> applyQueryPrefix envOk freshSession (StrList [''a'', ''b'']) = StrList [''a'', ''b'']
   \<and> applyQueryPrefix envOk nomicSession (StrList [''a'', ''b''])
       = StrList [''search_query: a'', ''search_query: b'']"
proof -
  have q0: "get_queryPrefix envOk freshSession = ''''"
    by (simp add: get_queryPrefix_def lookupModel_def envOk_def exampleModels_def freshSession_def
        miniLM_def)
  have q1: "get_queryPrefix envOk nomicSession = ''search_query: ''"
    by (simp add: get_queryPrefix_def lookupModel_def envOk_def exampleModels_def nomicSession_def
        freshSession_def nomic_def)
  from applyQueryPrefix_prepends [of envOk freshSession "StrList [''a'', ''b'']" "[]" "[]"]
       applyQueryPrefix_prepends [of envOk nomicSession "StrList []" "[]" "[''a'', ''b'']"]
       q0 q1
  show ?thesis by simp
qed
section \<open>Facts about acquisition, the loop and the parser\<close>


lemma fetchWithHost_atCall:
  "fetchWithHost e h s =
     (case loadPipeline e (atCall h s) of
        Inr p \<Rightarrow> (\<lparr>pipeline = Some p, retry = None, error = None\<rparr>, atCall h s)
      | Inl err \<Rightarrow>
          (\<lparr>pipeline = None, retry = (if h = None then Some fallbackHost else None),
            error = Some err\<rparr>, atCall h s))"
  by (auto simp: fetchWithHost_def atCall_def Let_def split: sum.splits option.splits)

lemma fallbackHost_nonempty: "fallbackHost \<noteq> []"
  by (simp add: fallbackHost_def)

lemma embedderClient_cases:
  "embedderClient e s =
     (case loadPipeline e (firstCall s) of
        Inr p \<Rightarrow> (Inr p, (firstCall s)\<lparr>modelDownloaded := True\<rparr>)
      | Inl e1 \<Rightarrow>
          (case loadPipeline e (secondCall s) of
             Inr p \<Rightarrow> (Inr p, (secondCall s)\<lparr>modelDownloaded := True\<rparr>)
           | Inl e2 \<Rightarrow> (Inl e2, secondCall s)))"
proof (cases "loadPipeline e (firstCall s)")
  case (Inr p)
  then show ?thesis
    by (simp add: embedderClient_def fetchWithHost_atCall firstCall_def)
next
  case (Inl e1)
  then show ?thesis
    by (cases "loadPipeline e (secondCall s)")
       (simp_all add: embedderClient_def fetchWithHost_atCall firstCall_def secondCall_def
          fallbackHost_nonempty)
qed

lemma pipelineCalls_firstCall:
  "pipelineCalls (firstCall s) =
     pipelineCalls s @ [PipelineCall None (remoteHost s) (\<not> modelDownloaded s)]"
  by (simp add: pipelineCalls_def firstCall_def atCall_def log_event_def Let_def)

lemma pipelineCalls_secondCall:
  "pipelineCalls (secondCall s) =
     pipelineCalls s @
       [PipelineCall None (remoteHost s) (\<not> modelDownloaded s),
        PipelineCall (Some fallbackHost)
          (if modelDownloaded s then remoteHost s else fallbackHost) (\<not> modelDownloaded s)]"
  by (simp add: pipelineCalls_def secondCall_def firstCall_def atCall_def log_event_def Let_def fallbackHost_def)

lemma atCall_frame:
  "files (atCall h s) = files s" "modelDownloaded (atCall h s) = modelDownloaded s"
  "model (atCall h s) = model s" "maxConcurrentChunks (atCall h s) = maxConcurrentChunks s"
  by (simp_all add: atCall_def log_event_def Let_def split: option.splits)

lemma firstCall_frame:
  "files (firstCall s) = files s" "modelDownloaded (firstCall s) = modelDownloaded s"
  by (simp_all add: firstCall_def atCall_frame log_event_def)

lemma secondCall_frame:
  "files (secondCall s) = files s" "modelDownloaded (secondCall s) = modelDownloaded s"
  by (simp_all add: secondCall_def atCall_frame firstCall_frame log_event_def)

lemma embedderClient_files: "files (snd (embedderClient e s)) = files s"
  by (simp add: embedderClient_cases firstCall_frame secondCall_frame split: sum.splits)

lemma embedderClient_flag_success:
  "fst (embedderClient e s) = Inr p \<Longrightarrow> modelDownloaded (snd (embedderClient e s))"
  by (simp add: embedderClient_cases split: sum.splits)

lemma embedderClient_flag_mono:
  "modelDownloaded s \<Longrightarrow> modelDownloaded (snd (embedderClient e s))"
  by (simp add: embedderClient_cases firstCall_frame secondCall_frame split: sum.splits)

lemma progress_atCall:
  "modelDownloaded s \<Longrightarrow> progressEvents (atCall h s) = progressEvents s"
  by (simp add: progressEvents_def atCall_def log_event_def)

lemma progress_embedderClient:
  "modelDownloaded s \<Longrightarrow> progressEvents (snd (embedderClient e s)) = progressEvents s"
  by (simp add: embedderClient_cases firstCall_def secondCall_def progressEvents_def atCall_def log_event_def
      split: sum.splits)

lemma writeToTempfile_frame:
  "modelDownloaded (writeToTempfile e p d s) = modelDownloaded s"
  "progressEvents (writeToTempfile e p d s) = progressEvents s"
  by (simp_all add: writeToTempfile_def log_event_def progressEvents_def)


lemma embedLoop_fail:
  assumes "fst (embedderClient e (openBracket e tmp idx s)) = Inl err"
  shows "embedLoop e tmp n idx (c # rest) s
           = (Inl err, snd (embedderClient e (openBracket e tmp idx s)))"
proof -
  obtain r s2 where *: "embedderClient e (openBracket e tmp idx s) = (r, s2)"
    by (cases "embedderClient e (openBracket e tmp idx s)")
  with assms have "r = Inl err" by simp
  with * show ?thesis
    by (simp add: openBracket_def Let_def)
qed

lemma embedLoop_skip:
  assumes "fst (embedderClient e (openBracket e tmp idx s)) = Inr pipe"
      and "tensor_length (pipe c) = Some 0"
  shows "embedLoop e tmp n idx (c # rest) s
           = embedLoop e tmp n (idx + 1) rest (snd (embedderClient e (openBracket e tmp idx s)))"
proof -
  obtain r s2 where *: "embedderClient e (openBracket e tmp idx s) = (r, s2)"
    by (cases "embedderClient e (openBracket e tmp idx s)")
  with assms have "r = Inr pipe" by simp
  with * assms(2) show ?thesis
    by (simp add: openBracket_def Let_def)
qed

lemma embedLoop_write:
  assumes "fst (embedderClient e (openBracket e tmp idx s)) = Inr pipe"
      and "tensor_length (pipe c) \<noteq> Some 0"
  shows "embedLoop e tmp n idx (c # rest) s
           = embedLoop e tmp n (idx + 1) rest
               (writeBatch e tmp n idx (pipe c)
                  (snd (embedderClient e (openBracket e tmp idx s))))"
proof -
  obtain r s2 where *: "embedderClient e (openBracket e tmp idx s) = (r, s2)"
    by (cases "embedderClient e (openBracket e tmp idx s)")
  with assms have "r = Inr pipe" by simp
  with * assms(2) show ?thesis
    by (simp add: openBracket_def writeBatch_def Let_def)
qed

lemma log_event_frame:
  "modelDownloaded (log_event ev s) = modelDownloaded s"
  "progressEvents (log_event (LogEmbedded a b) s) = progressEvents s"
  by (simp_all add: log_event_def progressEvents_def)

lemma writeBatch_frame:
  "modelDownloaded (writeBatch e p n idx out s) = modelDownloaded s"
  "progressEvents (writeBatch e p n idx out s) = progressEvents s"
  by (simp_all add: writeBatch_def Let_def writeToTempfile_frame log_event_frame)

lemma openBracket_frame:
  "modelDownloaded (openBracket e p idx s) = modelDownloaded s"
  "progressEvents (openBracket e p idx s) = progressEvents s"
  by (simp_all add: openBracket_def writeToTempfile_frame)

lemma embedLoop_warm:
  "modelDownloaded s \<Longrightarrow>
     modelDownloaded (snd (embedLoop e tmp n idx chunks s))
     \<and> progressEvents (snd (embedLoop e tmp n idx chunks s)) = progressEvents s"
proof (induction chunks arbitrary: idx s)
  case Nil
  then show ?case by simp
next
  case (Cons c rest)
  let ?s1 = "openBracket e tmp idx s"
  let ?s2 = "snd (embedderClient e ?s1)"
  have s1: "modelDownloaded ?s1" using Cons.prems by (simp add: openBracket_frame)
  have s2: "modelDownloaded ?s2" "progressEvents ?s2 = progressEvents s"
    using s1 by (simp_all add: embedderClient_flag_mono progress_embedderClient openBracket_frame)
  show ?case
  proof (cases "fst (embedderClient e ?s1)")
    case (Inl err)
    then show ?thesis using s2 by (simp add: embedLoop_fail del: embedLoop.simps)
  next
    case (Inr pipe)
    show ?thesis
    proof (cases "tensor_length (pipe c) = Some 0")
      case True
      with Inr Cons.IH [of ?s2 "idx + 1"] s2 show ?thesis
        by (simp add: embedLoop_skip del: embedLoop.simps)
    next
      case False
      have "modelDownloaded (writeBatch e tmp n idx (pipe c) ?s2)"
        using s2 by (simp add: writeBatch_frame)
      from Cons.IH [OF this, of "idx + 1"] Inr False s2 show ?thesis
        by (simp add: embedLoop_write writeBatch_frame del: embedLoop.simps)
    qed
  qed
qed


lemma content_write:
  "\<not> appendFile_fails e s \<Longrightarrow>
     files (writeToTempfile e p d s) = (files s)(p \<mapsto> content s p @ [d])"
  by (simp add: writeToTempfile_def content_def)

lemma content_update [simp]: "content (s\<lparr>files := (files s)(p \<mapsto> c)\<rparr>) p = c"
  by (simp add: content_def)


lemma write_ok:
  assumes "\<not> appendFile_fails e s"
  shows "content (writeToTempfile e p d s) p = content s p @ [d]"
    and "onDisk (writeToTempfile e p d s) p"
  using assms by (simp_all add: writeToTempfile_def content_def onDisk_def)

lemma onDisk_log [simp]: "onDisk (log_event ev s) p = onDisk s p"
  by (simp add: onDisk_def log_event_def)

lemma onDisk_cong: "files s = files s' \<Longrightarrow> onDisk s p = onDisk s' p"
  by (simp add: onDisk_def)

lemma content_log [simp]: "content (log_event ev s) p = content s p"
  by (simp add: content_def log_event_def)

lemma files_log [simp]: "files (log_event ev s) = files s"
  by (simp add: log_event_def)




lemma write_keeps: "onDisk s q \<Longrightarrow> onDisk (writeToTempfile e p d s) q"
  by (simp add: writeToTempfile_def onDisk_def log_event_def)

lemma openBracket_keeps: "onDisk s q \<Longrightarrow> onDisk (openBracket e p idx s) q"
  by (simp add: openBracket_def write_keeps)










lemma embedChunks_runBatches:
  "embedChunks e xs s =
     (case runBatches e xs s of
        (Inl err, s') \<Rightarrow> (Inl err, s')
      | (Inr u, s') \<Rightarrow> readBack (tempfilePath e s) s')"
  by (simp add: embedChunks_def runBatches_def Let_def)



lemma toChunks_spec_Nil: "toChunks_spec [] sz = []"
  by (simp add: toChunks_spec.simps)


lemma toChunks_spec_nonempty: "c \<in> set (toChunks_spec arr sz) \<Longrightarrow> c \<noteq> []"
proof (induction arr sz rule: toChunks_spec.induct)
  case (1 arr sz)
  from "1.prems" have "c \<in> set (if arr = [] \<or> sz = 0 then []
                         else take sz arr # toChunks_spec (drop sz arr) sz)"
    by (subst (asm) toChunks_spec.simps)
  with "1.IH" show ?case
    by (auto split: if_splits)
qed


lemma envFallback_loads:
  "loadPipeline envFallback (firstCall freshSession) = Inl (LibraryError ''fetch failed'')"
  "loadPipeline envFallback (secondCall freshSession) = Inr toyPipeline"
proof -
  have "remoteHost (firstCall freshSession) \<noteq> fallbackHost"
    by (simp add: firstCall_def atCall_def log_event_def freshSession_def fallbackHost_def)
  then show "loadPipeline envFallback (firstCall freshSession) = Inl (LibraryError ''fetch failed'')"
    by (simp add: envFallback_def)
  have "remoteHost (secondCall freshSession) = fallbackHost"
    by (simp add: secondCall_def firstCall_def atCall_def log_event_def freshSession_def
        fallbackHost_nonempty)
  then show "loadPipeline envFallback (secondCall freshSession) = Inr toyPipeline"
    by (simp add: envFallback_def)
qed

lemma envFallback_acquired: "fst (embedderClient envFallback freshSession) = Inr toyPipeline"
  by (simp add: embedderClient_cases envFallback_loads)

lemma readBack_frame:
  "modelDownloaded (snd (readBack p s)) = modelDownloaded s"
  "progressEvents (snd (readBack p s)) = progressEvents s"
  by (simp_all add: readBack_def Let_def progressEvents_def split: option.splits json.splits)

lemma fetchWithHost_state: "snd (fetchWithHost e h s) = atCall h s"
  by (simp add: fetchWithHost_atCall split: sum.splits)

lemma embedChunks_warm:
  assumes "modelDownloaded s"
  shows "modelDownloaded (snd (embedChunks e xs s))"
    and "progressEvents (snd (embedChunks e xs s)) = progressEvents s"
proof -
  obtain r0 s1 where rs: "runBatches e xs s = (r0, s1)"
    by (cases "runBatches e xs s")
  from embedLoop_warm [OF assms, of e "tempfilePath e s"
      "length (toChunks e xs (maxConcurrentChunks s))" 0 "toChunks e xs (maxConcurrentChunks s)"] rs
  have s1: "modelDownloaded s1" "progressEvents s1 = progressEvents s"
    by (simp_all add: runBatches_def)
  show "modelDownloaded (snd (embedChunks e xs s))"
    using s1 by (cases r0) (simp_all add: embedChunks_runBatches rs readBack_frame)
  show "progressEvents (snd (embedChunks e xs s)) = progressEvents s"
    using s1 by (cases r0) (simp_all add: embedChunks_runBatches rs readBack_frame)
qed

lemma embedTextInput_state:
  "snd (embedTextInput e x s)
     = snd (embedChunks e (case applyQueryPrefix e s x of StrList ts \<Rightarrow> ts | Str t \<Rightarrow> [t]) s)"
  by (simp add: embedTextInput_def Let_def split: prod.splits sum.splits)

lemma embedLoop_append:
  "embedLoop e tmp n idx (pre @ post) s =
     (case embedLoop e tmp n idx pre s of
        (Inl err, s') \<Rightarrow> (Inl err, s')
      | (Inr u, s') \<Rightarrow> embedLoop e tmp n (idx + length pre) post s')"
proof (induction pre arbitrary: idx s)
  case Nil
  then show ?case by simp
next
  case (Cons c rest)
  let ?s1 = "openBracket e tmp idx s"
  let ?s2 = "snd (embedderClient e ?s1)"
  show ?case
  proof (cases "fst (embedderClient e ?s1)")
    case (Inl err)
    then show ?thesis
      using embedLoop_fail [of e tmp idx s err n c "rest @ post"]
            embedLoop_fail [of e tmp idx s err n c rest]
      by (simp del: embedLoop.simps)
  next
    case (Inr pipe)
    show ?thesis
    proof (cases "tensor_length (pipe c) = Some 0")
      case True
      with Inr Cons.IH [of "idx + 1" ?s2]
           embedLoop_skip [of e tmp idx s pipe c n "rest @ post"]
           embedLoop_skip [of e tmp idx s pipe c n rest]
      show ?thesis
        by (simp del: embedLoop.simps split: prod.splits sum.splits)
    next
      case False
      with Inr Cons.IH [of "idx + 1" "writeBatch e tmp n idx (pipe c) ?s2"]
           embedLoop_write [of e tmp idx s pipe c n "rest @ post"]
           embedLoop_write [of e tmp idx s pipe c n rest]
      show ?thesis
        by (simp del: embedLoop.simps split: prod.splits sum.splits)
    qed
  qed
qed

lemma toChunks_spec_3_2: "toChunks_spec [a, b, c] 2 = [[a, b], [c]]"
  by (simp add: toChunks_spec.simps [of "[a, b, c]"] toChunks_spec.simps [of "[c]"]
      toChunks_spec_Nil)

lemma toChunks_spec_1_2: "toChunks_spec [a] 2 = [[a]]"
  by (simp add: toChunks_spec.simps [of "[a]"] toChunks_spec_Nil)

lemmas run_defs = embedderClient_def fetchWithHost_def writeToTempfile_def log_event_def
  Let_def tolist_def batchVectors_def libraryTensor_def toyPipeline_def toyVector_def

lemma envFlaky_first_batch:
  "fst (embedLoop envFlaky ''/storage/tmp/0001.tmp'' 2 0 [[''a'', ''bb'']] freshSession) = Inr ()"
  "files (snd (embedLoop envFlaky ''/storage/tmp/0001.tmp'' 2 0 [[''a'', ''bb'']] freshSession))
     ''/storage/tmp/0001.tmp''
     = Some [LBracket, Stringified (JArr [JArr [JNum 1], JArr [JNum 2]]), Comma]"
  "LogEmbedded 1 2 \<in> set (trace (snd (embedLoop envFlaky ''/storage/tmp/0001.tmp'' 2 0
      [[''a'', ''bb'']] freshSession)))"
  by (simp_all add: run_defs envFlaky_def envOk_def freshSession_def)

lemma envFlaky_fails_later:
  "LogEmbedded 1 2 \<in> set (trace s') \<Longrightarrow>
     fst (embedderClient envFlaky s') = Inl (LibraryError ''fetch failed'')"
proof -
  assume a: "LogEmbedded 1 2 \<in> set (trace s')"
  have "LogEmbedded 1 2 \<in> set (trace (firstCall s'))"
    using a by (simp add: firstCall_def atCall_def log_event_def)
  moreover have "LogEmbedded 1 2 \<in> set (trace (secondCall s'))"
    using a by (simp add: secondCall_def firstCall_def atCall_def log_event_def)
  ultimately show ?thesis
    by (simp add: embedderClient_cases envFlaky_def)
qed

lemma envNoClose_single:
  "embedLoop envNoClose ''/storage/tmp/0001.tmp'' 1 0 [[''a'']] freshSession
     = (Inr (), snd (embedLoop envNoClose ''/storage/tmp/0001.tmp'' 1 0 [[''a'']] freshSession))"
  "files (snd (embedLoop envNoClose ''/storage/tmp/0001.tmp'' 1 0 [[''a'']] freshSession))
     ''/storage/tmp/0001.tmp'' = Some [LBracket, Stringified (JArr [JArr [JNum 1]])]"
  "trace (snd (embedLoop envNoClose ''/storage/tmp/0001.tmp'' 1 0 [[''a'']] freshSession))
     = [LogNeverRun,
        LogDownloading ''Xenova/all-MiniLM-L6-v2'' ''https://huggingface.co/'',
        PipelineCall None ''https://huggingface.co/'' True, LogEmbedded 1 1, ErrWriting]"
  by (simp_all add: run_defs envNoClose_def envOk_def freshSession_def)

lemma envOk_single:
  "embedLoop envOk ''/storage/tmp/0001.tmp'' 1 0 [[''a'']] freshSession
     = (Inr (), snd (embedLoop envOk ''/storage/tmp/0001.tmp'' 1 0 [[''a'']] freshSession))"
  "files (snd (embedLoop envOk ''/storage/tmp/0001.tmp'' 1 0 [[''a'']] freshSession))
     ''/storage/tmp/0001.tmp'' = Some [LBracket, Stringified (JArr [JArr [JNum 1]]), RBracket]"
  by (simp_all add: run_defs envOk_def freshSession_def)

lemma applyQueryPrefix_list:
  "applyQueryPrefix e s (StrList ts) = StrList (map (\<lambda>text. get_queryPrefix e s @ text) ts)"
  by (simp add: applyQueryPrefix_def map_append_Nil)

lemma nomic_prefix: "get_queryPrefix envOk nomicSession = ''search_query: ''"
  by (simp add: get_queryPrefix_def lookupModel_def envOk_def exampleModels_def
      nomicSession_def freshSession_def nomic_def)

lemma nomic_three:
  "fst (embedChunks envOk [''search_query: a'', ''search_query: bb'', ''search_query: ccc'']
          nomicSession)
     = Inr (Some [JArr [JNum 15], JArr [JNum 16], JArr [JNum 17]])"
  by (simp add: embedChunks_def readBack_def JSON_parse_def flat_def run_defs envOk_def
      nomicSession_def freshSession_def toChunks_spec_3_2)





section \<open>The chunked pipeline on well-behaved input\<close>




section \<open>Acquisition\<close>

text \<open>
  C5 (amended). From any state, \<open>embedderClient\<close> first calls the library with no host
  override, against the library's remote host as it stands. Only if that call fails does
  it call once more, with the fixed fallback host as override, and never a third time; a
  failed \<open>#fetchWithHost\<close> offers the fallback host for a retry only when it was itself
  called without override. The override replaces the library's remote host (and path
  template) only while \<open>modelDownloaded\<close> is false: with the flag true the second call
  runs against the unchanged remote host. If the second call fails too, its error, and
  only it, is thrown.
\<close>

theorem embedderClient_single_fallback:
  "embedderClient e s =
     (case loadPipeline e (firstCall s) of
        Inr p \<Rightarrow> (Inr p, (firstCall s)\<lparr>modelDownloaded := True\<rparr>)
      | Inl e1 \<Rightarrow>
          (case loadPipeline e (secondCall s) of
             Inr p \<Rightarrow> (Inr p, (secondCall s)\<lparr>modelDownloaded := True\<rparr>)
           | Inl e2 \<Rightarrow> (Inl e2, secondCall s)))
   \<and> pipelineCalls (firstCall s) =
       pipelineCalls s @ [PipelineCall None (remoteHost s) (\<not> modelDownloaded s)]
   \<and> pipelineCalls (secondCall s) =
       pipelineCalls s @
         [PipelineCall None (remoteHost s) (\<not> modelDownloaded s),
          PipelineCall (Some fallbackHost)
            (if modelDownloaded s then remoteHost s else fallbackHost) (\<not> modelDownloaded s)]
   \<and> retry (fst (fetchWithHost e h s)) =
       (case loadPipeline e (atCall h s) of
          Inr p \<Rightarrow> None
        | Inl err \<Rightarrow> (if h = None then Some fallbackHost else None))"
proof -
  have "retry (fst (fetchWithHost e h s)) =
       (case loadPipeline e (atCall h s) of
          Inr p \<Rightarrow> None
        | Inl err \<Rightarrow> (if h = None then Some fallbackHost else None))"
    by (simp add: fetchWithHost_atCall split: sum.splits)
  with embedderClient_cases [of e s] pipelineCalls_firstCall [of s] pipelineCalls_secondCall [of s]
  show ?thesis by blast
qed

text \<open>A fresh session whose primary host is unreachable: served by the fallback host, or not at all.\<close>

theorem embedderClient_single_fallback_witness:
  "fst (embedderClient envFallback freshSession) = Inr toyPipeline
   \<and> pipelineCalls (snd (embedderClient envFallback freshSession)) =
        [PipelineCall None ''https://huggingface.co/'' True,
         PipelineCall (Some fallbackHost) fallbackHost True]
   \<and> fst (embedderClient envDown freshSession) = Inl (LibraryError ''fetch failed'')
   \<and> pipelineCalls (snd (embedderClient envDown freshSession)) =
        [PipelineCall None ''https://huggingface.co/'' True,
         PipelineCall (Some fallbackHost) fallbackHost True]"
proof -
  note l1 = envFallback_loads(1) and l2 = envFallback_loads(2)
  have d: "loadPipeline envDown s' = Inl (LibraryError ''fetch failed'')" for s'
    by (simp add: envDown_def)
  have p: "pipelineCalls freshSession = []" "remoteHost freshSession = ''https://huggingface.co/''"
    "\<not> modelDownloaded freshSession"
    by (simp_all add: pipelineCalls_def freshSession_def)
  have q: "pipelineCalls (st\<lparr>modelDownloaded := True\<rparr>) = pipelineCalls st" for st
    by (simp add: pipelineCalls_def)
  from embedderClient_single_fallback [of envFallback freshSession None]
       embedderClient_single_fallback [of envDown freshSession None]
  show ?thesis
    by (simp add: l1 l2 d p q)
qed

text \<open>
  A session that found the model directory on disk, with every load failing: the retry
  is made with the fallback host as override, yet against the primary host.
\<close>

theorem retry_on_warm_session_counterexample:
  "fst (embedderClient envDown warmSession) = Inl (LibraryError ''fetch failed'')
   \<and> pipelineCalls (snd (embedderClient envDown warmSession)) =
        [PipelineCall None ''https://huggingface.co/'' False,
         PipelineCall (Some fallbackHost) ''https://huggingface.co/'' False]
   \<and> ''https://huggingface.co/'' \<noteq> fallbackHost"
proof -
  have d: "loadPipeline envDown s' = Inl (LibraryError ''fetch failed'')" for s'
    by (simp add: envDown_def)
  have w: "pipelineCalls warmSession = []" "remoteHost warmSession = ''https://huggingface.co/''"
    "modelDownloaded warmSession"
    by (simp_all add: pipelineCalls_def warmSession_def freshSession_def)
  have "''https://huggingface.co/'' \<noteq> fallbackHost"
    by (simp add: fallbackHost_def)
  then show ?thesis
    by (simp add: embedderClient_cases d pipelineCalls_secondCall w)
qed

section \<open>The session flag\<close>

text \<open>
  C8. \<open>modelDownloaded\<close> is true after every acquisition that returns a capability,
  whichever of the two calls produced it. No operation of the session clears it: if it is
  true before \<open>#fetchWithHost\<close>, \<open>embedderClient\<close>, \<open>#writeToTempfile\<close>, \<open>embedChunks\<close> or
  \<open>embedTextInput\<close>, it is true after. And once it is true, an acquisition (alone or inside
  \<open>embedChunks\<close>) adds no download line to the log and passes no \<open>progress_callback\<close>.
\<close>

theorem modelDownloaded_monotone:
  "(fst (embedderClient e s) = Inr p \<longrightarrow> modelDownloaded (snd (embedderClient e s)))
   \<and> (modelDownloaded s \<longrightarrow>
         modelDownloaded (snd (fetchWithHost e h s))
       \<and> modelDownloaded (snd (embedderClient e s))
       \<and> modelDownloaded (writeToTempfile e filePath d s)
       \<and> modelDownloaded (snd (embedChunks e textChunks s))
       \<and> modelDownloaded (snd (embedTextInput e textInput s))
       \<and> progressEvents (snd (embedderClient e s)) = progressEvents s
       \<and> progressEvents (snd (embedChunks e textChunks s)) = progressEvents s)"
  by (simp add: embedderClient_flag_success embedderClient_flag_mono fetchWithHost_state
      atCall_frame writeToTempfile_frame embedChunks_warm embedTextInput_state
      progress_embedderClient)

text \<open>
  The flag is set by an acquisition served from the fallback host, and stays set on a
  warm session even when every load fails.
\<close>

theorem modelDownloaded_monotone_witness:
  "modelDownloaded (snd (embedderClient envFallback freshSession))
   \<and> modelDownloaded (snd (embedderClient envDown warmSession))
   \<and> modelDownloaded (snd (embedChunks envDown [''a''] warmSession))
   \<and> progressEvents (snd (embedderClient envDown warmSession)) = []"
proof -
  have w: "modelDownloaded warmSession" "progressEvents warmSession = []"
    by (simp_all add: warmSession_def freshSession_def progressEvents_def)
  from modelDownloaded_monotone [of envFallback freshSession toyPipeline]
       modelDownloaded_monotone [of envDown warmSession _ None _ _ "[''a'']"]
       envFallback_acquired w
  show ?thesis by simp
qed

section \<open>Failure inside the loop\<close>

text \<open>
  C9. Let the batches be \<open>before @ chunk # rest\<close>, let the loop have run through \<open>before\<close>
  without an acquisition failure, ending in \<open>s1\<close>, and let the acquisition for \<open>chunk\<close>
  fail (\<open>embedderClient\<close> throws, which it does only after both of its calls have
  failed). Then \<open>embedChunks\<close> throws that error at once: its final state is the state in
  which the acquisition failed, so no later batch is touched, nothing is read back and
  nothing is removed. The scratch files are exactly as the appends so far left them; in
  particular the scratch file, once on disk, is still on disk.
\<close>

theorem acquisition_failure_leaves_scratch:
  assumes batches: "toChunks e textChunks (maxConcurrentChunks s) = before @ chunk # rest"
      and ran: "embedLoop e (tempfilePath e s) (length (before @ chunk # rest)) 0 before s
                  = (Inr (), s1)"
      and failed: "fst (embedderClient e (openBracket e (tempfilePath e s) (length before) s1))
                     = Inl err"
  shows "embedChunks e textChunks s
           = (Inl err, snd (embedderClient e (openBracket e (tempfilePath e s) (length before) s1)))
         \<and> files (snd (embedChunks e textChunks s))
             = files (openBracket e (tempfilePath e s) (length before) s1)
         \<and> (onDisk s1 (tempfilePath e s) \<or> (before = [] \<and> \<not> appendFile_fails e s1)
              \<longrightarrow> onDisk (snd (embedChunks e textChunks s)) (tempfilePath e s))"
proof -
  let ?tmp = "tempfilePath e s"
  let ?n = "length (before @ chunk # rest)"
  let ?sf = "snd (embedderClient e (openBracket e ?tmp (length before) s1))"
  have "embedLoop e ?tmp ?n 0 (before @ chunk # rest) s
          = embedLoop e ?tmp ?n (length before) (chunk # rest) s1"
    using ran by (simp add: embedLoop_append del: embedLoop.simps)
  also have "\<dots> = (Inl err, ?sf)"
    using failed by (rule embedLoop_fail)
  finally have run: "runBatches e textChunks s = (Inl err, ?sf)"
    by (simp add: runBatches_def batches del: embedLoop.simps)
  then have res: "embedChunks e textChunks s = (Inl err, ?sf)"
    by (simp add: embedChunks_runBatches)
  have fs: "files ?sf = files (openBracket e ?tmp (length before) s1)"
    by (rule embedderClient_files)
  have "onDisk (openBracket e ?tmp (length before) s1) ?tmp"
    if "onDisk s1 ?tmp \<or> (before = [] \<and> \<not> appendFile_fails e s1)"
    using that by (auto simp: openBracket_keeps) (simp add: openBracket_def write_ok)
  then show ?thesis
    using res fs by (simp add: onDisk_cong [OF fs])
qed

text \<open>
  Two batches; the acquisition for the second fails. The error is thrown and the scratch
  file holds the opening bracket, the first batch and the comma.
\<close>

theorem acquisition_failure_leaves_scratch_witness:
  "fst (embedChunks envFlaky [''a'', ''bb'', ''ccc''] freshSession)
     = Inl (LibraryError ''fetch failed'')
   \<and> files (snd (embedChunks envFlaky [''a'', ''bb'', ''ccc''] freshSession))
         ''/storage/tmp/0001.tmp''
       = Some [LBracket, Stringified (JArr [JArr [JNum 1], JArr [JNum 2]]), Comma]"
proof -
  let ?tmp = "''/storage/tmp/0001.tmp''"
  let ?s1 = "snd (embedLoop envFlaky ?tmp 2 0 [[''a'', ''bb'']] freshSession)"
  have tmp: "tempfilePath envFlaky freshSession = ?tmp"
    by (simp add: envFlaky_def envOk_def)
  have batches: "toChunks envFlaky [''a'', ''bb'', ''ccc''] (maxConcurrentChunks freshSession)
                   = [[''a'', ''bb'']] @ [''ccc''] # []"
    by (simp add: envFlaky_def envOk_def freshSession_def toChunks_spec_3_2)
  have ran: "embedLoop envFlaky (tempfilePath envFlaky freshSession)
               (length ([[''a'', ''bb'']] @ [''ccc''] # [])) 0 [[''a'', ''bb'']] freshSession
             = (Inr (), ?s1)"
    using envFlaky_first_batch(1) by (simp add: tmp prod_eq_iff numeral_2_eq_2 del: embedLoop.simps)
  have "LogEmbedded 1 2 \<in> set (trace (openBracket envFlaky ?tmp 1 ?s1))"
    using envFlaky_first_batch(3) by (simp add: openBracket_def del: embedLoop.simps)
  then have failed: "fst (embedderClient envFlaky
      (openBracket envFlaky (tempfilePath envFlaky freshSession) (length [[''a'', ''bb'']]) ?s1))
      = Inl (LibraryError ''fetch failed'')"
    by (simp add: tmp envFlaky_fails_later del: embedLoop.simps)
  from acquisition_failure_leaves_scratch [OF batches ran failed] envFlaky_first_batch(2)
  show ?thesis
    by (simp add: tmp openBracket_def embedderClient_files del: embedLoop.simps)
qed

section \<open>Read-back and removal of the scratch file\<close>

text \<open>
  C3 (amended). Let the loop have completed all batches, ending in \<open>s1\<close> with the scratch
  file on disk. If its content parses as JSON, \<open>embedChunks\<close> returns a result and has
  removed the scratch file, and only it. If the content does not parse, \<open>embedChunks\<close>
  throws the \<open>SyntaxError\<close> from the state \<open>s1\<close> itself: the scratch file is not removed
  and still holds its content.
\<close>

theorem scratch_file_removed_after_parse:
  assumes "runBatches e textChunks s = (Inr u, s1)"
      and "files s1 (tempfilePath e s) = Some c"
  shows "(JSON_parse c \<noteq> None \<longrightarrow>
            (\<exists>r. fst (embedChunks e textChunks s) = Inr r)
          \<and> snd (embedChunks e textChunks s) = s1\<lparr>files := (files s1)(tempfilePath e s := None)\<rparr>
          \<and> \<not> onDisk (snd (embedChunks e textChunks s)) (tempfilePath e s))
       \<and> (JSON_parse c = None \<longrightarrow>
            embedChunks e textChunks s = (Inl SyntaxError, s1)
          \<and> files (snd (embedChunks e textChunks s)) (tempfilePath e s) = Some c)"
  using assms
  by (auto simp: embedChunks_runBatches readBack_def Let_def onDisk_def split: json.splits)

text \<open>
  One text: embedded, the file is removed; when the append of the closing bracket fails,
  the content does not parse and the file is not removed.
\<close>

theorem scratch_file_removed_after_parse_witness:
  "\<not> onDisk (snd (embedChunks envOk [''a''] freshSession)) ''/storage/tmp/0001.tmp''
   \<and> fst (embedChunks envNoClose [''a''] freshSession) = Inl SyntaxError
   \<and> files (snd (embedChunks envNoClose [''a''] freshSession)) ''/storage/tmp/0001.tmp''
       = Some [LBracket, Stringified (JArr [JArr [JNum 1]])]"
proof -
  let ?tmp = "''/storage/tmp/0001.tmp''"
  have ok: "runBatches envOk [''a''] freshSession
              = (Inr (), snd (embedLoop envOk ?tmp 1 0 [[''a'']] freshSession))"
    using envOk_single(1)
    by (simp add: runBatches_def envOk_def freshSession_def toChunks_spec_1_2 del: embedLoop.simps)
  have em: "runBatches envNoClose [''a''] freshSession
              = (Inr (), snd (embedLoop envNoClose ?tmp 1 0 [[''a'']] freshSession))"
    using envNoClose_single(1)
    by (simp add: runBatches_def envNoClose_def envOk_def freshSession_def toChunks_spec_1_2
        del: embedLoop.simps)
  have t: "tempfilePath envOk freshSession = ?tmp" "tempfilePath envNoClose freshSession = ?tmp"
    by (simp_all add: envNoClose_def envOk_def)
  have p1: "JSON_parse [LBracket, Stringified (JArr [JArr [JNum 1]]), RBracket] \<noteq> None"
    by (simp add: JSON_parse_def)
  have p2: "JSON_parse [LBracket, Stringified (JArr [JArr [JNum 1]])] = None"
    by (simp add: JSON_parse_def)
  from scratch_file_removed_after_parse [OF ok, of "[LBracket, Stringified (JArr [JArr [JNum 1]]), RBracket]"]
       scratch_file_removed_after_parse [OF em, of "[LBracket, Stringified (JArr [JArr [JNum 1]])]"]
       envOk_single(2) envNoClose_single(2) p1 p2
  show ?thesis
    by (simp add: t onDisk_def del: embedLoop.simps)
qed

text \<open>
  One text, and the append of the closing bracket fails (the failure is logged and
  swallowed): the scratch file holds the opening bracket and the batch, the parse fails,
  the error reaches the caller and the file is still on disk.
\<close>

theorem parse_failure_keeps_scratch_counterexample:
  "fst (embedChunks envNoClose [''a''] freshSession) = Inl SyntaxError
   \<and> onDisk (snd (embedChunks envNoClose [''a''] freshSession)) ''/storage/tmp/0001.tmp''"
proof -
  have "runBatches envNoClose [''a''] freshSession
          = (Inr (), snd (embedLoop envNoClose ''/storage/tmp/0001.tmp'' 1 0 [[''a'']] freshSession))"
    using envNoClose_single(1)
    by (simp add: runBatches_def envNoClose_def envOk_def freshSession_def toChunks_spec_1_2
        del: embedLoop.simps)
  moreover have "tempfilePath envNoClose freshSession = ''/storage/tmp/0001.tmp''"
    by (simp add: envNoClose_def envOk_def)
  ultimately show ?thesis
    using envNoClose_single(2)
    by (simp add: embedChunks_runBatches readBack_def JSON_parse_def onDisk_def
        del: embedLoop.simps)
qed

section \<open>Embedding a text input\<close>

text \<open>
  C10. Given a list of strings, \<open>embedTextInput\<close> runs \<open>embedChunks\<close> on the whole list,
  every element with the query prefix directly before it, and ends in the state
  \<open>embedChunks\<close> ends in. If \<open>embedChunks\<close> returns a list, the result is its first element
  alone (the first embedding vector), the others are dropped; a falsy first element, an
  empty list and \<open>null\<close> all give the empty vector. An error of \<open>embedChunks\<close> is passed
  on. This holds for every list, the non-empty ones among them.
\<close>

theorem embedTextInput_list_first_vector:
  "snd (embedTextInput e (StrList ts) s)
     = snd (embedChunks e (map (\<lambda>text. get_queryPrefix e s @ text) ts) s)
   \<and> (fst (embedChunks e (map (\<lambda>text. get_queryPrefix e s @ text) ts) s)
          = Inr (Some (JArr v # vs))
        \<longrightarrow> fst (embedTextInput e (StrList ts) s) = Inr (JArr v))
   \<and> (fst (embedChunks e (map (\<lambda>text. get_queryPrefix e s @ text) ts) s)
          = Inr (Some (x # vs))
        \<longrightarrow> fst (embedTextInput e (StrList ts) s) = Inr (if truthy x then x else JArr []))
   \<and> (fst (embedChunks e (map (\<lambda>text. get_queryPrefix e s @ text) ts) s) = Inr None
        \<longrightarrow> fst (embedTextInput e (StrList ts) s) = Inr (JArr []))
   \<and> (fst (embedChunks e (map (\<lambda>text. get_queryPrefix e s @ text) ts) s) = Inr (Some [])
        \<longrightarrow> fst (embedTextInput e (StrList ts) s) = Inr (JArr []))
   \<and> (fst (embedChunks e (map (\<lambda>text. get_queryPrefix e s @ text) ts) s) = Inl err
        \<longrightarrow> fst (embedTextInput e (StrList ts) s) = Inl err)"
  by (simp add: embedTextInput_def applyQueryPrefix_list Let_def split: prod.splits sum.splits)

text \<open>
  Three texts under a model with the query prefix \<open>search_query: \<close>: the result is the
  vector of the first prefixed text, of length 15.
\<close>

theorem embedTextInput_list_first_vector_witness:
  "fst (embedTextInput envOk (StrList [''a'', ''bb'', ''ccc'']) nomicSession) = Inr (JArr [JNum 15])"
proof -
  from embedTextInput_list_first_vector [of envOk "[''a'', ''bb'', ''ccc'']" nomicSession
      "[JNum 15]" "[JArr [JNum 16], JArr [JNum 17]]"] nomic_three
  show ?thesis
    by (simp add: nomic_prefix)
qed

section \<open>The empty input\<close>

text \<open>
  C2 (the code departs from the claim). With no text there is no batch, so nothing is
  appended and the scratch file is never created: the read-back throws \<open>ENOENT\<close>, and
  \<open>embedChunks\<close> does not return \<open>null\<close>. The state is left as it was.
\<close>

theorem embedChunks_empty_throws:
  assumes "toChunks e [] (maxConcurrentChunks s) = []"
      and "\<not> onDisk s (tempfilePath e s)"
  shows "embedChunks e [] s = (Inl (ENOENT (tempfilePath e s)), s)"
  using assms by (simp add: embedChunks_def readBack_def onDisk_def)

theorem embedChunks_empty_throws_witness:
  "embedChunks envOk [] nomicSession = (Inl (ENOENT ''/storage/tmp/0001.tmp''), nomicSession)"
proof -
  have 1: "toChunks envOk [] (maxConcurrentChunks nomicSession) = []"
    by (simp add: envOk_def toChunks_spec_Nil)
  have 2: "\<not> onDisk nomicSession (tempfilePath envOk nomicSession)"
    by (simp add: onDisk_def nomicSession_def freshSession_def)
  from embedChunks_empty_throws [OF 1 2] show ?thesis
    by (simp add: envOk_def)
qed

section \<open>A batch whose output has no rows\<close>





end
